theory Spec2Isabelle
  imports Main "HOL-Library.Word"
begin

unbundle bit_operations_syntax

section \<open>The replicator controller of c4Replicator.hh\<close>

text \<open>
  A shallow embedding of \<^verbatim>\<open>struct C4Replicator\<close> (src/Replicator/c4Replicator.hh).
  The object is a record of its data members; every member function is a function from
  the object to the object. A member \<^verbatim>\<open>_x\<close> of the source is the field \<open>u_x\<close>, and
  a method \<^verbatim>\<open>_f\<close> is the function \<open>u_f\<close> (an Isabelle name cannot start with an
  underscore). What a method does to the outside (the mutex, the engine, the virtual
  hooks, the client's callbacks, the assignment of the self-reference) is appended, in
  program order, to the field \<open>trace\<close>. Calls are taken one at a time: the model has no
  interleaving of threads. Log output is left out.
\<close>

subsection \<open>Data of the C API\<close>

text \<open>
  The types of the C API and of the engine are declared in headers that are not among
  the sources (c4Replicator.h, c4Base.h, Replicator.hh, ReplicatedRev.hh). They are
  records of the fields the controller reads, writes or passes on.

  Modelled from the spec: the enumeration \<^verbatim>\<open>C4ReplicatorActivityLevel\<close>, with the levels
  in the spec's order Stopped, Offline, Connecting, Idle, Busy, which is the order of
  their numeric values (Stopped is 0, Busy is 4); the source compares levels with
  \<^verbatim>\<open><=\<close>, \<^verbatim>\<open>>=\<close> and \<^verbatim>\<open>>\<close>.
\<close>

datatype C4ReplicatorActivityLevel = kC4Stopped | kC4Offline | kC4Connecting | kC4Idle | kC4Busy

fun levelValue :: "C4ReplicatorActivityLevel \<Rightarrow> nat" where
  "levelValue kC4Stopped = 0"
| "levelValue kC4Offline = 1"
| "levelValue kC4Connecting = 2"
| "levelValue kC4Idle = 3"
| "levelValue kC4Busy = 4"

record C4Progress =
  unitsCompleted :: "64 word"
  unitsTotal :: "64 word"
  documentCount :: "64 word"

record C4Error =
  domain :: "32 word"
  code :: "32 word"
  internal_info :: "32 word"

type_synonym C4ReplicatorStatusFlags = "32 word"

text \<open>
  Modelled from the spec: the flag bits of the status record (\<open>HostReachable\<close>,
  \<open>Suspended\<close>, and the retry bit). Their declaration is in the C header c4Replicator.h,
  which is not among the sources; the values are the header's.
\<close>

definition kC4WillRetry :: C4ReplicatorStatusFlags where
  "kC4WillRetry = 1"

definition kC4HostReachable :: C4ReplicatorStatusFlags where
  "kC4HostReachable = 2"

definition kC4Suspended :: C4ReplicatorStatusFlags where
  "kC4Suspended = 4"

record C4ReplicatorStatus =
  level :: C4ReplicatorActivityLevel
  progress :: C4Progress
  error :: C4Error
  flags :: C4ReplicatorStatusFlags

definition zeroProgress :: C4Progress where
  "zeroProgress = \<lparr>unitsCompleted = 0, unitsTotal = 0, documentCount = 0\<rparr>"

definition noError :: C4Error where
  "noError = \<lparr>domain = 0, code = 0, internal_info = 0\<rparr>"

datatype C4ReplicatorMode = kC4Disabled | kC4Passive | kC4OneShot | kC4Continuous

type_synonym AllocedDict = "(string \<times> string) list"

text \<open>An \<^verbatim>\<open>alloc_slice\<close>: \<open>None\<close> is the null slice.\<close>

type_synonym alloc_slice = "string option"

text \<open>A pointer to an engine (\<^verbatim>\<open>Replicator*\<close>), a function pointer, a context pointer.\<close>

type_synonym ReplicatorPtr = nat
type_synonym FunPtr = nat
type_synonym ContextPtr = nat

record Options =
  push :: C4ReplicatorMode
  pull :: C4ReplicatorMode
  properties :: AllocedDict
  callbackContext :: ContextPtr

datatype Dir = kPulling | kPushing

record C4DocumentEnded =
  docID :: string
  revID :: string
  sequence :: "64 word"
  docError :: C4Error

record ReplicatedRev =
  dir :: Dir
  asDocumentEnded :: C4DocumentEnded

record BlobProgress =
  blobDir :: Dir
  blobDocID :: string
  docProperty :: string
  key :: string
  bytesCompleted :: "64 word"
  bytesTotal :: "64 word"
  blobError :: C4Error

subsection \<open>What a method does to the outside\<close>

text \<open>
  Modelled from the spec: the macro \<^verbatim>\<open>LOCK\<close>, which is declared outside the sources. It
  takes the mutex (a \<^verbatim>\<open>std::mutex\<close>, not a recursive one) and holds it to the end of the
  enclosing block. \<open>Lock\<close> is recorded where the macro stands, \<open>Unlock\<close> where its block
  ends, on every path out of it.

  \<open>NotifyStateChanged st\<close> records a call of \<^verbatim>\<open>notifyStateChanged\<close> when the status is
  \<open>st\<close>: the status the call publishes. \<open>OnStatusChanged\<close>, \<open>OnDocumentsEnded\<close> and
  \<open>OnBlobProgress\<close> are calls of the client's callbacks, with their arguments.
  \<open>SelfRetainAssign b\<close> is an assignment to \<^verbatim>\<open>_selfRetain\<close>, of \<^verbatim>\<open>this\<close> when \<open>b\<close> holds
  and of null otherwise.
\<close>

datatype action =
    Lock
  | Unlock
  | ReplStart ReplicatorPtr
  | ReplStop ReplicatorPtr
  | ReplTerminate ReplicatorPtr
  | HandleConnected
  | HandleStopped
  | NotifyStateChanged C4ReplicatorStatus
  | OnStatusChanged FunPtr C4ReplicatorStatus ContextPtr
  | OnDocumentsEnded FunPtr bool nat "C4DocumentEnded list" ContextPtr
  | OnBlobProgress FunPtr bool string string string "64 word" "64 word" C4Error ContextPtr
  | SelfRetainAssign bool

subsection \<open>The object\<close>

text \<open>
  \<open>u_replicator\<close> is the \<^verbatim>\<open>Retained<Replicator>\<close> (\<open>None\<close> is the null pointer).
  \<open>u_selfRetain\<close> is the \<^verbatim>\<open>Retained<C4Replicator>\<close> that is either null or \<^verbatim>\<open>this\<close>:
  \<open>True\<close> when it holds \<^verbatim>\<open>this\<close>. \<open>selfRetentions\<close> counts the references on the object
  that were taken through \<open>u_selfRetain\<close> and not yet given back. The three callback
  slots hold a function pointer or null.
\<close>

record C4Replicator =
  u_options :: Options
  u_replicator :: "ReplicatorPtr option"
  u_status :: C4ReplicatorStatus
  u_activeWhenSuspended :: bool
  u_responseHeaders :: alloc_slice
  u_selfRetain :: bool
  selfRetentions :: int
  u_onStatusChanged :: "FunPtr option"
  u_onDocumentsEnded :: "FunPtr option"
  u_onBlobProgress :: "FunPtr option"
  trace :: "action list"

definition emit :: "action \<Rightarrow> C4Replicator \<Rightarrow> C4Replicator" where
  "emit a s = s\<lparr>trace := trace s @ [a]\<rparr>"

text \<open>The actions a call added: the trace after it, without the trace before it.\<close>

definition emitted :: "C4Replicator \<Rightarrow> C4Replicator \<Rightarrow> action list" where
  "emitted s s' = drop (length (trace s)) (trace s')"

text \<open>
  The parameters of a replication as the client passes them
  (\<^verbatim>\<open>C4ReplicatorParameters\<close>), and the base constructor: the status starts as
  \<^verbatim>\<open>{kC4Stopped}\<close> with everything else zero, then gets the HostReachable flag.
\<close>

record C4ReplicatorParameters =
  paramOptions :: Options
  paramOnStatusChanged :: "FunPtr option"
  paramOnDocumentsEnded :: "FunPtr option"
  paramOnBlobProgress :: "FunPtr option"

definition construct :: "C4ReplicatorParameters \<Rightarrow> C4Replicator" where
  "construct params =
     \<lparr>u_options = paramOptions params,
      u_replicator = None,
      u_status = \<lparr>level = kC4Stopped, progress = zeroProgress, error = noError,
                  flags = 0 OR kC4HostReachable\<rparr>,
      u_activeWhenSuspended = False,
      u_responseHeaders = None,
      u_selfRetain = False,
      selfRetentions = 0,
      u_onStatusChanged = paramOnStatusChanged params,
      u_onDocumentsEnded = paramOnDocumentsEnded params,
      u_onBlobProgress = paramOnBlobProgress params,
      trace = []\<rparr>"

subsection \<open>Status flags\<close>

definition statusFlag :: "C4ReplicatorStatusFlags \<Rightarrow> C4Replicator \<Rightarrow> bool" where
  "statusFlag flag s = (flags (u_status s) AND flag \<noteq> 0)"

definition setStatusFlag ::
  "C4ReplicatorStatusFlags \<Rightarrow> bool \<Rightarrow> C4Replicator \<Rightarrow> bool \<times> C4Replicator" where
  "setStatusFlag flag on s =
     (let fl = (if on then flags (u_status s) OR flag
                else flags (u_status s) AND NOT flag)
      in if fl = flags (u_status s) then (False, s)
         else (True, s\<lparr>u_status := (u_status s)\<lparr>flags := fl\<rparr>\<rparr>))"

definition updateStatusFromReplicator :: "C4ReplicatorStatus \<Rightarrow> C4Replicator \<Rightarrow> C4Replicator" where
  "updateStatusFromReplicator st s =
     (let fl = flags (u_status s)
      in s\<lparr>u_status := st\<lparr>flags := fl\<rparr>\<rparr>)"

subsection \<open>The self-reference\<close>

text \<open>
  Modelled from the spec: assigning to the self-retention handle. The handle is a
  \<^verbatim>\<open>Retained<C4Replicator>\<close>, whose declaration is not among the sources: an assignment
  takes a reference on the new target (when it is not null) and gives back the one on
  the old target (when it was not null).
\<close>

definition assignSelfRetain :: "bool \<Rightarrow> C4Replicator \<Rightarrow> C4Replicator" where
  "assignSelfRetain this s =
     (let taken = selfRetentions s + (if this then 1 else 0);
          left = taken - (if u_selfRetain s then 1 else 0)
      in emit (SelfRetainAssign this) (s\<lparr>u_selfRetain := this, selfRetentions := left\<rparr>))"

subsection \<open>Hooks and notification\<close>

text \<open>
  \<^verbatim>\<open>createReplicator\<close> is pure virtual: a subclass stores a new engine in
  \<^verbatim>\<open>_replicator\<close>. The pointer of the new engine is an input of the model.
\<close>

definition createReplicator :: "ReplicatorPtr \<Rightarrow> C4Replicator \<Rightarrow> C4Replicator" where
  "createReplicator newRepl s = s\<lparr>u_replicator := Some newRepl\<rparr>"

text \<open>The base \<^verbatim>\<open>handleConnected\<close> is empty; the call is recorded.\<close>

definition handleConnected :: "C4Replicator \<Rightarrow> C4Replicator" where
  "handleConnected s = emit HandleConnected s"

text \<open>
  \<^verbatim>\<open>handleStopped\<close> is virtual and empty in the base class; the source says that an
  override may modify \<^verbatim>\<open>_status\<close> to change the client notification. The override is the parameter
  \<open>hook\<close>, a function on the status; the base class is \<open>baseHook\<close>.
\<close>

definition handleStopped ::
  "(C4ReplicatorStatus \<Rightarrow> C4ReplicatorStatus) \<Rightarrow> C4Replicator \<Rightarrow> C4Replicator" where
  "handleStopped hook s = emit HandleStopped (s\<lparr>u_status := hook (u_status s)\<rparr>)"

definition baseHook :: "C4ReplicatorStatus \<Rightarrow> C4ReplicatorStatus" where
  "baseHook st = st"

definition notifyStateChanged :: "C4Replicator \<Rightarrow> C4Replicator" where
  "notifyStateChanged s =
     (let s1 = emit (NotifyStateChanged (u_status s)) s
      in case u_onStatusChanged s1 of
           None \<Rightarrow> s1
         | Some onStatusChanged \<Rightarrow>
             emit (OnStatusChanged onStatusChanged (u_status s1) (callbackContext (u_options s1))) s1)"

subsection \<open>Starting and suspending\<close>

text \<open>
  \<^verbatim>\<open>_start\<close>. \<open>newRepl\<close> is the engine \<^verbatim>\<open>createReplicator\<close> would make,
  \<open>engineStatus\<close> is what \<^verbatim>\<open>_replicator->status()\<close> returns. The engine pointer is
  dereferenced right after \<^verbatim>\<open>createReplicator\<close>; it is never null there.
\<close>

definition u_start ::
  "ReplicatorPtr \<Rightarrow> C4ReplicatorStatus \<Rightarrow> C4Replicator \<Rightarrow> C4Replicator" where
  "u_start newRepl engineStatus s =
     (let s1 = (if u_replicator s = None then createReplicator newRepl s else s)
      in case u_replicator s1 of
           None \<Rightarrow> s1
         | Some repl \<Rightarrow>
             (let s2 = assignSelfRetain True s1;
                  s3 = updateStatusFromReplicator engineStatus s2;
                  s4 = s3\<lparr>u_responseHeaders := None\<rparr>
              in emit (ReplStart repl) s4))"

definition start ::
  "ReplicatorPtr \<Rightarrow> C4ReplicatorStatus \<Rightarrow> C4Replicator \<Rightarrow> C4Replicator" where
  "start newRepl engineStatus s =
     (let s1 = emit Lock s;
          s2 = (if u_replicator s1 = None then u_start newRepl engineStatus s1 else s1)
      in emit Unlock s2)"

definition u_suspend :: "C4Replicator \<Rightarrow> C4Replicator" where
  "u_suspend s =
     (case u_replicator s of
        Some repl \<Rightarrow> emit (ReplStop repl) s
      | None \<Rightarrow> s)"

definition u_unsuspend ::
  "ReplicatorPtr \<Rightarrow> C4ReplicatorStatus \<Rightarrow> C4Replicator \<Rightarrow> C4Replicator" where
  "u_unsuspend newRepl engineStatus s = u_start newRepl engineStatus s"

definition setHostReachable :: "bool \<Rightarrow> C4Replicator \<Rightarrow> C4Replicator" where
  "setHostReachable reachable s = s"

definition setSuspended ::
  "bool \<Rightarrow> ReplicatorPtr \<Rightarrow> C4ReplicatorStatus \<Rightarrow> C4Replicator \<Rightarrow> C4Replicator" where
  "setSuspended suspended newRepl engineStatus s =
     (let s1 = emit Lock s;
          (changed, s2) = setStatusFlag kC4Suspended suspended s1
      in if \<not> changed then emit Unlock s2
         else if suspended then
           (let s3 = s2\<lparr>u_activeWhenSuspended :=
                         (levelValue (level (u_status s2)) \<ge> levelValue kC4Connecting)\<rparr>;
                s4 = (if u_activeWhenSuspended s3 then u_suspend s3 else s3)
            in emit Unlock s4)
         else
           (let s3 = (if level (u_status s2) = kC4Offline \<and> u_activeWhenSuspended s2
                      then u_unsuspend newRepl engineStatus s2 else s2)
            in emit Unlock s3))"

subsection \<open>Accessors, stop, properties, detach\<close>

definition responseHeaders :: "C4Replicator \<Rightarrow> alloc_slice \<times> C4Replicator" where
  "responseHeaders s =
     (let s1 = emit Lock s
      in (u_responseHeaders s1, emit Unlock s1))"

definition status :: "C4Replicator \<Rightarrow> C4ReplicatorStatus \<times> C4Replicator" where
  "status s =
     (let s1 = emit Lock s
      in (u_status s1, emit Unlock s1))"

definition stop :: "C4Replicator \<Rightarrow> C4Replicator" where
  "stop s =
     (let s1 = emit Lock s;
          s2 = (case u_replicator s1 of
                  Some repl \<Rightarrow> emit (ReplStop repl) s1
                | None \<Rightarrow>
                    if level (u_status s1) \<noteq> kC4Stopped then
                      (let s3 = s1\<lparr>u_status := (u_status s1)\<lparr>level := kC4Stopped\<rparr>\<rparr>;
                           s4 = s3\<lparr>u_status := (u_status s3)\<lparr>progress := zeroProgress\<rparr>\<rparr>;
                           s5 = notifyStateChanged s4
                       in assignSelfRetain False s5)
                    else s1)
      in emit Unlock s2)"

definition setProperties :: "AllocedDict \<Rightarrow> C4Replicator \<Rightarrow> C4Replicator" where
  "setProperties props s =
     (let s1 = emit Lock s;
          s2 = s1\<lparr>u_options := (u_options s1)\<lparr>properties := props\<rparr>\<rparr>
      in emit Unlock s2)"

definition detach :: "C4Replicator \<Rightarrow> C4Replicator" where
  "detach s =
     (let s1 = emit Lock s;
          s2 = s1\<lparr>u_onStatusChanged := None\<rparr>;
          s3 = s2\<lparr>u_onDocumentsEnded := None\<rparr>;
          s4 = s3\<lparr>u_onBlobProgress := None\<rparr>
      in emit Unlock s4)"

subsection \<open>Pending documents\<close>

record C4DocumentInfo =
  infoDocID :: string
  infoRevID :: string
  infoSequence :: "64 word"

text \<open>
  Modelled from the spec: the query \<^verbatim>\<open>pendingDocumentIDs(callback, outErr)\<close> of the
  engine and of the checkpoint store, neither of which is among the sources. A run of
  the query calls the callback on some documents (\<open>reported\<close>) and then either returns
  true (\<open>failure\<close> is \<open>None\<close>) or returns false with an error, which it stores through
  \<^verbatim>\<open>outErr\<close> when that pointer is not null. An out-parameter is \<open>None\<close> for a null
  pointer, and \<open>Some e\<close> for a pointer to a \<^verbatim>\<open>C4Error\<close> that holds \<open>e\<close>.
\<close>

record QueryOutcome =
  reported :: "C4DocumentInfo list"
  failure :: "C4Error option"

definition storeError :: "C4Error option \<Rightarrow> C4Error option \<Rightarrow> C4Error option" where
  "storeError err outErr =
     (case err of
        None \<Rightarrow> outErr
      | Some e \<Rightarrow> (case outErr of None \<Rightarrow> None | Some old \<Rightarrow> Some e))"

text \<open>
  The result slice: null, or the data the encoder finished. The bytes of the encoding
  are not modelled; the array of strings they encode is.
\<close>

datatype C4SliceResult = NullSlice | FleeceArray "string list"

text \<open>The lambda: writes the document's id to the encoder and sets \<^verbatim>\<open>any\<close>.\<close>

fun pendingCallback ::
  "C4DocumentInfo list \<Rightarrow> string list \<times> bool \<Rightarrow> string list \<times> bool" where
  "pendingCallback [] (enc, any) = (enc, any)"
| "pendingCallback (info # infos) (enc, any) =
     pendingCallback infos (enc @ [infoDocID info], True)"

definition pendingDocumentIDs ::
  "QueryOutcome \<Rightarrow> QueryOutcome \<Rightarrow> C4Error option \<Rightarrow> C4Replicator
     \<Rightarrow> (C4SliceResult \<times> C4Error option) \<times> C4Replicator" where
  "pendingDocumentIDs replQuery checkpointerQuery outErr s =
     (let s1 = emit Lock s;
          query = (case u_replicator s1 of
                     Some repl \<Rightarrow> replQuery
                   | None \<Rightarrow> checkpointerQuery);
          (enc, any) = pendingCallback (reported query) ([], False);
          ok = (failure query = None);
          outErr1 = storeError (failure query) outErr
      in if \<not> ok then ((NullSlice, outErr1), emit Unlock s1)
         else ((if any then FleeceArray enc else NullSlice, outErr1), emit Unlock s1))"

subsection \<open>The engine's delegate calls\<close>

text \<open>
  \<^verbatim>\<open>replicatorGotHTTPResponse\<close>. \<open>encoded\<close> is \<^verbatim>\<open>headers.encode()\<close>. A failed
  \<^verbatim>\<open>Assert\<close> throws: the result is \<open>Inl\<close>, with the object as the unwinding leaves it
  (the lock released).
\<close>

datatype failure_kind = AssertionFailed

definition replicatorGotHTTPResponse ::
  "ReplicatorPtr \<Rightarrow> int \<Rightarrow> alloc_slice \<Rightarrow> C4Replicator
     \<Rightarrow> (failure_kind \<times> C4Replicator) + C4Replicator" where
  "replicatorGotHTTPResponse repl httpStatus encoded s =
     (let s1 = emit Lock s
      in if Some repl = u_replicator s1 then
           (if u_responseHeaders s1 \<noteq> None then Inl (AssertionFailed, emit Unlock s1)
            else Inr (emit Unlock (s1\<lparr>u_responseHeaders := encoded\<rparr>)))
         else Inr (emit Unlock s1))"

definition replicatorStatusChanged ::
  "(C4ReplicatorStatus \<Rightarrow> C4ReplicatorStatus) \<Rightarrow> ReplicatorPtr \<Rightarrow> C4ReplicatorStatus
     \<Rightarrow> C4Replicator \<Rightarrow> C4Replicator" where
  "replicatorStatusChanged hook repl newStatus s =
     (let s1 = emit Lock s
      in if Some repl \<noteq> u_replicator s1 then emit Unlock s1
         else
           (let oldLevel = level (u_status s1);
                s2 = updateStatusFromReplicator newStatus s1;
                s3 = (if levelValue (level (u_status s2)) > levelValue kC4Connecting
                         \<and> levelValue oldLevel \<le> levelValue kC4Connecting
                      then handleConnected s2 else s2);
                s4 = (if level (u_status s3) = kC4Stopped then
                        (let s5 = emit (ReplTerminate repl) s3;
                             s6 = s5\<lparr>u_replicator := None\<rparr>
                         in if statusFlag kC4Suspended s6
                            then s6\<lparr>u_status := (u_status s6)\<lparr>level := kC4Offline\<rparr>\<rparr>
                            else handleStopped hook s6)
                      else s3);
                stopped = (level (u_status s4) = kC4Stopped);
                s7 = emit Unlock s4;
                s8 = notifyStateChanged s7
            in if stopped then assignSelfRetain False s8 else s8))"

text \<open>
  \<^verbatim>\<open>replicatorDocumentsEnded\<close>. The inner loop over the revisions fills the vector
  \<^verbatim>\<open>docsEnded\<close>; the outer loop runs the integer \<^verbatim>\<open>pushing\<close> from 0 to 1. The
  comparison of the source is between the boolean \<^verbatim>\<open>rev->dir() == Dir::kPushing\<close>,
  promoted to an integer, and \<^verbatim>\<open>pushing\<close>; the callback gets \<^verbatim>\<open>pushing\<close> as a
  boolean.
\<close>

fun collectDocsEnded ::
  "nat \<Rightarrow> ReplicatedRev list \<Rightarrow> C4DocumentEnded list \<Rightarrow> C4DocumentEnded list" where
  "collectDocsEnded pushing [] docsEnded = docsEnded"
| "collectDocsEnded pushing (rv # revs) docsEnded =
     collectDocsEnded pushing revs
       (if (if dir rv = kPushing then 1 else 0) = pushing
        then docsEnded @ [asDocumentEnded rv] else docsEnded)"

function docsEndedLoop :: "nat \<Rightarrow> ReplicatedRev list \<Rightarrow> C4Replicator \<Rightarrow> C4Replicator" where
  "docsEndedLoop pushing revs s =
     (if pushing \<le> 1 then
        (let docsEnded = collectDocsEnded pushing revs [];
             s1 = (if docsEnded \<noteq> [] then
                     (case u_onDocumentsEnded s of
                        Some onDocsEnded \<Rightarrow>
                          emit (OnDocumentsEnded onDocsEnded (pushing \<noteq> 0) (length docsEnded)
                                  docsEnded (callbackContext (u_options s))) s
                      | None \<Rightarrow> s)
                   else s)
         in docsEndedLoop (pushing + 1) revs s1)
      else s)"
  by pat_completeness auto
termination
  by (relation "measure (\<lambda>(pushing, revs, s). 2 - pushing)") auto

definition replicatorDocumentsEnded ::
  "ReplicatorPtr \<Rightarrow> ReplicatedRev list \<Rightarrow> C4Replicator \<Rightarrow> C4Replicator" where
  "replicatorDocumentsEnded repl revs s =
     (if Some repl \<noteq> u_replicator s then s
      else docsEndedLoop 0 revs s)"

definition replicatorBlobProgress ::
  "ReplicatorPtr \<Rightarrow> BlobProgress \<Rightarrow> C4Replicator \<Rightarrow> C4Replicator" where
  "replicatorBlobProgress repl p s =
     (if Some repl \<noteq> u_replicator s then s
      else case u_onBlobProgress s of
             Some onBlob \<Rightarrow>
               emit (OnBlobProgress onBlob (blobDir p = kPushing) (blobDocID p) (docProperty p)
                       (key p) (bytesCompleted p) (bytesTotal p) (blobError p)
                       (callbackContext (u_options s))) s
           | None \<Rightarrow> s)"

subsection \<open>Sequences of calls\<close>

text \<open>
  One call on the object, by the client or by the engine, with the inputs the call takes
  from outside. \<^verbatim>\<open>retry\<close> and \<^verbatim>\<open>isDocumentPending\<close> are not modelled: the first
  touches no member, the second only reads.
\<close>

datatype event =
    EvStart ReplicatorPtr C4ReplicatorStatus
  | EvSetHostReachable bool
  | EvSetSuspended bool ReplicatorPtr C4ReplicatorStatus
  | EvResponseHeaders
  | EvStatus
  | EvStop
  | EvSetProperties AllocedDict
  | EvDetach
  | EvPendingDocumentIDs QueryOutcome QueryOutcome "C4Error option"
  | EvGotHTTPResponse ReplicatorPtr int alloc_slice
  | EvStatusChanged ReplicatorPtr C4ReplicatorStatus
  | EvDocumentsEnded ReplicatorPtr "ReplicatedRev list"
  | EvBlobProgress ReplicatorPtr BlobProgress

fun step :: "(C4ReplicatorStatus \<Rightarrow> C4ReplicatorStatus) \<Rightarrow> C4Replicator \<Rightarrow> event \<Rightarrow> C4Replicator" where
  "step hook s (EvStart newRepl engineStatus) = start newRepl engineStatus s"
| "step hook s (EvSetHostReachable reachable) = setHostReachable reachable s"
| "step hook s (EvSetSuspended suspended newRepl engineStatus) =
     setSuspended suspended newRepl engineStatus s"
| "step hook s EvResponseHeaders = snd (responseHeaders s)"
| "step hook s EvStatus = snd (status s)"
| "step hook s EvStop = stop s"
| "step hook s (EvSetProperties props) = setProperties props s"
| "step hook s EvDetach = detach s"
| "step hook s (EvPendingDocumentIDs replQuery checkpointerQuery outErr) =
     snd (pendingDocumentIDs replQuery checkpointerQuery outErr s)"
| "step hook s (EvGotHTTPResponse repl httpStatus encoded) =
     (case replicatorGotHTTPResponse repl httpStatus encoded s of
        Inl (f, s') \<Rightarrow> s'
      | Inr s' \<Rightarrow> s')"
| "step hook s (EvStatusChanged repl newStatus) = replicatorStatusChanged hook repl newStatus s"
| "step hook s (EvDocumentsEnded repl revs) = replicatorDocumentsEnded repl revs s"
| "step hook s (EvBlobProgress repl p) = replicatorBlobProgress repl p s"

definition run ::
  "(C4ReplicatorStatus \<Rightarrow> C4ReplicatorStatus) \<Rightarrow> event list \<Rightarrow> C4Replicator \<Rightarrow> C4Replicator" where
  "run hook evs s = foldl (step hook) s evs"

text \<open>The statuses a trace publishes: the arguments of the calls of \<^verbatim>\<open>notifyStateChanged\<close>.\<close>

fun published :: "action list \<Rightarrow> C4ReplicatorStatus list" where
  "published [] = []"
| "published (NotifyStateChanged st # acts) = st # published acts"
| "published (a # acts) = published acts"

subsection \<open>Notions used in the statements\<close>

text \<open>What \<^verbatim>\<open>notifyStateChanged\<close> passes to the client: one call, when a callback is set.\<close>

definition clientNotified :: "C4Replicator \<Rightarrow> C4ReplicatorStatus \<Rightarrow> action list" where
  "clientNotified s st =
     (case u_onStatusChanged s of
        None \<Rightarrow> []
      | Some onStatusChanged \<Rightarrow> [OnStatusChanged onStatusChanged st (callbackContext (u_options s))])"

text \<open>
  What \<^verbatim>\<open>replicatorStatusChanged\<close> does while it holds the mutex, for a report of the
  current engine.
\<close>

definition lockedSection ::
  "C4Replicator \<Rightarrow> ReplicatorPtr \<Rightarrow> C4ReplicatorStatus \<Rightarrow> action list" where
  "lockedSection s repl newStatus =
     Lock # (if levelValue (level newStatus) > levelValue kC4Connecting
                \<and> levelValue (level (u_status s)) \<le> levelValue kC4Connecting
             then [HandleConnected] else [])
       @ (if level newStatus = kC4Stopped
          then ReplTerminate repl # (if statusFlag kC4Suspended s then [] else [HandleStopped])
          else [])"

text \<open>
  The revisions of one direction, in the order of the batch, and the call of the
  documents-ended callback for such a partition.
\<close>

definition partitionByDir :: "bool \<Rightarrow> ReplicatedRev list \<Rightarrow> C4DocumentEnded list" where
  "partitionByDir pushing revs =
     map asDocumentEnded (filter (\<lambda>rv. (dir rv = kPushing) = pushing) revs)"

definition documentsEndedCall ::
  "C4Replicator \<Rightarrow> bool \<Rightarrow> C4DocumentEnded list \<Rightarrow> action list" where
  "documentsEndedCall s pushing docs =
     (if docs = [] then []
      else case u_onDocumentsEnded s of
             None \<Rightarrow> []
           | Some onDocsEnded \<Rightarrow>
               [OnDocumentsEnded onDocsEnded pushing (length docs) docs
                  (callbackContext (u_options s))])"

text \<open>Whether a trace calls a client callback between a \<open>Lock\<close> and its \<open>Unlock\<close>.\<close>

fun callbackUnderLock :: "bool \<Rightarrow> action list \<Rightarrow> bool" where
  "callbackUnderLock held [] = False"
| "callbackUnderLock held (Lock # acts) = callbackUnderLock True acts"
| "callbackUnderLock held (Unlock # acts) = callbackUnderLock False acts"
| "callbackUnderLock held (OnStatusChanged f st c # acts) =
     (held \<or> callbackUnderLock held acts)"
| "callbackUnderLock held (OnDocumentsEnded f pushing n docs c # acts) =
     (held \<or> callbackUnderLock held acts)"
| "callbackUnderLock held (OnBlobProgress f pushing d p k bc bt e c # acts) =
     (held \<or> callbackUnderLock held acts)"
| "callbackUnderLock held (a # acts) = callbackUnderLock held acts"

text \<open>
  The invariant of the self-reference: the count is one exactly when the handle holds
  \<^verbatim>\<open>this\<close>, and it holds \<^verbatim>\<open>this\<close> whenever an engine is held.
\<close>

definition retentionInv :: "C4Replicator \<Rightarrow> bool" where
  "retentionInv s =
     (selfRetentions s = (if u_selfRetain s then 1 else 0)
      \<and> (u_replicator s \<noteq> None \<longrightarrow> u_selfRetain s))"

subsection \<open>Concrete runs\<close>

definition exampleParams :: C4ReplicatorParameters where
  "exampleParams =
     \<lparr>paramOptions = \<lparr>push = kC4Continuous, pull = kC4Disabled, properties = [],
                       callbackContext = 7\<rparr>,
      paramOnStatusChanged = Some 1, paramOnDocumentsEnded = Some 2,
      paramOnBlobProgress = Some 3\<rparr>"

definition engineReport :: "C4ReplicatorActivityLevel \<Rightarrow> C4ReplicatorStatus" where
  "engineReport lvl =
     \<lparr>level = lvl, progress = \<lparr>unitsCompleted = 5, unitsTotal = 10, documentCount = 1\<rparr>,
      error = noError, flags = 0\<rparr>"

text \<open>
  \<^verbatim>\<open>start()\<close>; then \<^verbatim>\<open>setSuspended(true)\<close>; then the engine reports that it stopped.
\<close>

definition startEvents :: "event list" where
  "startEvents = [EvStart 1 (engineReport kC4Connecting)]"

definition suspendingEvents :: "event list" where
  "suspendingEvents = startEvents @ [EvSetSuspended True 2 (engineReport kC4Connecting)]"

definition suspendEvents :: "event list" where
  "suspendEvents = suspendingEvents @ [EvStatusChanged 1 (engineReport kC4Stopped)]"

definition started :: C4Replicator where
  "started = run baseHook startEvents (construct exampleParams)"

definition suspending :: C4Replicator where
  "suspending = run baseHook suspendingEvents (construct exampleParams)"

definition suspendedOffline :: C4Replicator where
  "suspendedOffline = run baseHook suspendEvents (construct exampleParams)"

definition offlineStatus :: C4ReplicatorStatus where
  "offlineStatus =
     \<lparr>level = kC4Offline, progress = \<lparr>unitsCompleted = 5, unitsTotal = 10, documentCount = 1\<rparr>,
      error = noError, flags = 6\<rparr>"

text \<open>An override of \<^verbatim>\<open>handleStopped\<close> that turns the stop into a retry.\<close>

definition retryHook :: "C4ReplicatorStatus \<Rightarrow> C4ReplicatorStatus" where
  "retryHook st = st\<lparr>level := kC4Offline, flags := flags st OR kC4WillRetry\<rparr>"

definition exampleRevs :: "ReplicatedRev list" where
  "exampleRevs =
     [\<lparr>dir = kPushing,
       asDocumentEnded = \<lparr>docID = ''a'', revID = ''1-aa'', sequence = 1, docError = noError\<rparr>\<rparr>,
      \<lparr>dir = kPulling,
       asDocumentEnded = \<lparr>docID = ''b'', revID = ''1-bb'', sequence = 0, docError = noError\<rparr>\<rparr>]"

definition failedQuery :: QueryOutcome where
  "failedQuery = \<lparr>reported = [], failure = Some \<lparr>domain = 1, code = 10, internal_info = 0\<rparr>\<rparr>"

definition emptyQuery :: QueryOutcome where
  "emptyQuery = \<lparr>reported = [], failure = None\<rparr>"

section \<open>Properties\<close>

declare docsEndedLoop.simps [simp del]

lemmas method_defs =
  emit_def construct_def statusFlag_def setStatusFlag_def updateStatusFromReplicator_def
  assignSelfRetain_def createReplicator_def handleConnected_def handleStopped_def
  baseHook_def notifyStateChanged_def u_start_def start_def u_suspend_def u_unsuspend_def
  setHostReachable_def setSuspended_def responseHeaders_def status_def stop_def
  setProperties_def detach_def replicatorGotHTTPResponse_def replicatorStatusChanged_def
  kC4Suspended_def kC4HostReachable_def

subsection \<open>The concrete runs, evaluated\<close>

lemma run_snoc: "run hook (evs @ [ev]) s = step hook (run hook evs s) ev"
  by (simp add: run_def)

lemma started_eq:
  "started =
     \<lparr>u_options = \<lparr>push = kC4Continuous, pull = kC4Disabled, properties = [],
                    callbackContext = 7\<rparr>,
      u_replicator = Some 1,
      u_status = (engineReport kC4Connecting)\<lparr>flags := 2\<rparr>,
      u_activeWhenSuspended = False,
      u_responseHeaders = None,
      u_selfRetain = True,
      selfRetentions = 1,
      u_onStatusChanged = Some 1,
      u_onDocumentsEnded = Some 2,
      u_onBlobProgress = Some 3,
      trace = [Lock, SelfRetainAssign True, ReplStart 1, Unlock]\<rparr>"
  by (simp add: started_def run_def startEvents_def exampleParams_def engineReport_def
      method_defs Let_def)

lemma suspending_eq:
  "suspending =
     \<lparr>u_options = \<lparr>push = kC4Continuous, pull = kC4Disabled, properties = [],
                    callbackContext = 7\<rparr>,
      u_replicator = Some 1,
      u_status = (engineReport kC4Connecting)\<lparr>flags := 6\<rparr>,
      u_activeWhenSuspended = True,
      u_responseHeaders = None,
      u_selfRetain = True,
      selfRetentions = 1,
      u_onStatusChanged = Some 1,
      u_onDocumentsEnded = Some 2,
      u_onBlobProgress = Some 3,
      trace = [Lock, SelfRetainAssign True, ReplStart 1, Unlock,
               Lock, ReplStop 1, Unlock]\<rparr>"
  by (simp add: suspending_def run_def suspendingEvents_def startEvents_def exampleParams_def
      engineReport_def method_defs Let_def)

lemma suspendedOffline_eq:
  "suspendedOffline =
     \<lparr>u_options = \<lparr>push = kC4Continuous, pull = kC4Disabled, properties = [],
                    callbackContext = 7\<rparr>,
      u_replicator = None,
      u_status = offlineStatus,
      u_activeWhenSuspended = True,
      u_responseHeaders = None,
      u_selfRetain = True,
      selfRetentions = 1,
      u_onStatusChanged = Some 1,
      u_onDocumentsEnded = Some 2,
      u_onBlobProgress = Some 3,
      trace = [Lock, SelfRetainAssign True, ReplStart 1, Unlock,
               Lock, ReplStop 1, Unlock,
               Lock, ReplTerminate 1, Unlock,
               NotifyStateChanged offlineStatus, OnStatusChanged 1 offlineStatus 7]\<rparr>"
  by (simp add: suspendedOffline_def run_def suspendEvents_def suspendingEvents_def
      startEvents_def exampleParams_def engineReport_def offlineStatus_def method_defs Let_def)

subsection \<open>What each method does, in closed form\<close>

lemma notify_eq:
  "notifyStateChanged s =
     s\<lparr>trace := trace s @ [NotifyStateChanged (u_status s)] @ clientNotified s (u_status s)\<rparr>"
  by (simp add: notifyStateChanged_def clientNotified_def emit_def Let_def split: option.splits)

lemma u_start_eq:
  "u_start newRepl engineStatus s =
     s\<lparr>u_replicator := Some (case u_replicator s of None \<Rightarrow> newRepl | Some repl \<Rightarrow> repl),
        u_selfRetain := True,
        selfRetentions := selfRetentions s + 1 - (if u_selfRetain s then 1 else 0),
        u_status := engineStatus\<lparr>flags := flags (u_status s)\<rparr>,
        u_responseHeaders := None,
        trace := trace s @ [SelfRetainAssign True,
                   ReplStart (case u_replicator s of None \<Rightarrow> newRepl | Some repl \<Rightarrow> repl)]\<rparr>"
  by (simp add: u_start_def createReplicator_def assignSelfRetain_def
      updateStatusFromReplicator_def emit_def Let_def split: option.splits)

lemma statusChanged_stale:
  "u_replicator s \<noteq> Some repl \<Longrightarrow>
     replicatorStatusChanged hook repl newStatus s = s\<lparr>trace := trace s @ [Lock, Unlock]\<rparr>"
  by (auto simp add: replicatorStatusChanged_def emit_def Let_def)

lemma statusChanged_emitted:
  "u_replicator s = Some repl \<Longrightarrow>
     emitted s (replicatorStatusChanged hook repl newStatus s) =
       lockedSection s repl newStatus
         @ [Unlock, NotifyStateChanged (u_status (replicatorStatusChanged hook repl newStatus s))]
         @ clientNotified s (u_status (replicatorStatusChanged hook repl newStatus s))
         @ (if level (u_status (replicatorStatusChanged hook repl newStatus s)) = kC4Stopped
            then [SelfRetainAssign False] else [])"
  by (simp add: replicatorStatusChanged_def updateStatusFromReplicator_def statusFlag_def
      handleStopped_def handleConnected_def notify_eq assignSelfRetain_def emit_def
      emitted_def clientNotified_def lockedSection_def Let_def split: option.splits)

lemma statusChanged_retention:
  "u_replicator s = Some repl \<Longrightarrow>
     u_selfRetain (replicatorStatusChanged hook repl newStatus s) =
       (if level (u_status (replicatorStatusChanged hook repl newStatus s)) = kC4Stopped
        then False else u_selfRetain s)
     \<and> selfRetentions (replicatorStatusChanged hook repl newStatus s) =
       (if level (u_status (replicatorStatusChanged hook repl newStatus s)) = kC4Stopped
        then selfRetentions s - (if u_selfRetain s then 1 else 0) else selfRetentions s)"
  by (simp add: replicatorStatusChanged_def updateStatusFromReplicator_def statusFlag_def
      handleStopped_def handleConnected_def notify_eq assignSelfRetain_def emit_def Let_def)

lemma statusChanged_engine:
  "u_replicator s = Some repl \<Longrightarrow>
     u_replicator (replicatorStatusChanged hook repl newStatus s) =
       (if level newStatus = kC4Stopped then None else Some repl)"
  by (simp add: replicatorStatusChanged_def updateStatusFromReplicator_def statusFlag_def
      handleStopped_def handleConnected_def notify_eq assignSelfRetain_def emit_def Let_def)

lemma statusChanged_status:
  "u_replicator s = Some repl \<Longrightarrow>
     u_status (replicatorStatusChanged hook repl newStatus s) =
       (if level newStatus = kC4Stopped then
          (if statusFlag kC4Suspended s
           then newStatus\<lparr>flags := flags (u_status s), level := kC4Offline\<rparr>
           else hook (newStatus\<lparr>flags := flags (u_status s)\<rparr>))
        else newStatus\<lparr>flags := flags (u_status s)\<rparr>)"
  by (simp add: replicatorStatusChanged_def updateStatusFromReplicator_def statusFlag_def
      handleStopped_def handleConnected_def notify_eq assignSelfRetain_def emit_def Let_def)

lemma lockedSection_quiet:
  "SelfRetainAssign b \<notin> set (lockedSection s repl newStatus)
   \<and> OnStatusChanged f st c \<notin> set (lockedSection s repl newStatus)
   \<and> published (lockedSection s repl newStatus) = []"
  by (simp add: lockedSection_def)

subsection \<open>The loop over the directions\<close>

lemma collectDocsEnded_filter:
  "collectDocsEnded pushing revs docsEnded =
     docsEnded @ map asDocumentEnded
       (filter (\<lambda>rv. (if dir rv = kPushing then 1 else 0) = pushing) revs)"
  by (induction revs arbitrary: docsEnded) auto

lemma collect_pulled: "collectDocsEnded 0 revs [] = partitionByDir False revs"
  by (simp add: collectDocsEnded_filter partitionByDir_def)

lemma collect_pushed: "collectDocsEnded (Suc 0) revs [] = partitionByDir True revs"
  by (simp add: collectDocsEnded_filter partitionByDir_def)

lemma docsEndedLoop_2: "docsEndedLoop (Suc (Suc 0)) revs s = s"
  by (subst docsEndedLoop.simps) simp

lemma docsEndedLoop_1:
  "docsEndedLoop (Suc 0) revs s =
     s\<lparr>trace := trace s @ documentsEndedCall s True (partitionByDir True revs)\<rparr>"
  by (subst docsEndedLoop.simps)
     (simp add: docsEndedLoop_2 collect_pushed documentsEndedCall_def emit_def Let_def
        split: option.splits)

lemma docsEndedLoop_0:
  "docsEndedLoop 0 revs s =
     s\<lparr>trace := trace s @ documentsEndedCall s False (partitionByDir False revs)
                 @ documentsEndedCall s True (partitionByDir True revs)\<rparr>"
  by (subst docsEndedLoop.simps)
     (simp add: docsEndedLoop_1 collect_pulled documentsEndedCall_def emit_def Let_def
        split: option.splits)

lemma pendingCallback_eq:
  "pendingCallback infos (enc, any) = (enc @ map infoDocID infos, any \<or> infos \<noteq> [])"
  by (induction infos arbitrary: enc any) auto

subsection \<open>Published statuses and the invariant of the self-reference\<close>

lemma published_append: "published (xs @ ys) = published xs @ published ys"
  by (induction xs rule: published.induct) auto

lemma published_clientNotified: "published (clientNotified s st) = []"
  by (simp add: clientNotified_def split: option.splits)

lemma published_documentsEndedCall: "published (documentsEndedCall s pushing docs) = []"
  by (simp add: documentsEndedCall_def split: option.splits)

lemma retentionInv_construct: "retentionInv (construct params)"
  by (simp add: retentionInv_def construct_def)

lemma start_inv: "retentionInv s \<Longrightarrow> retentionInv (start newRepl engineStatus s)"
  by (simp add: start_def u_start_eq retentionInv_def emit_def Let_def)

lemma start_published: "published (emitted s (start newRepl engineStatus s)) = []"
  by (simp add: start_def u_start_eq emitted_def emit_def Let_def)

lemma setSuspended_inv:
  "retentionInv s \<Longrightarrow> retentionInv (setSuspended suspended newRepl engineStatus s)"
  by (simp add: setSuspended_def setStatusFlag_def u_suspend_def u_unsuspend_def
      u_start_eq retentionInv_def emit_def Let_def split: option.splits)

lemma setSuspended_published:
  "published (emitted s (setSuspended suspended newRepl engineStatus s)) = []"
  by (simp add: setSuspended_def setStatusFlag_def u_suspend_def u_unsuspend_def
      u_start_eq emitted_def emit_def Let_def split: option.splits)

lemma stop_inv: "retentionInv s \<Longrightarrow> retentionInv (stop s)"
  by (simp add: stop_def notify_eq assignSelfRetain_def retentionInv_def emit_def Let_def
      split: option.splits)

lemma stop_published:
  "retentionInv s \<Longrightarrow> published (emitted s (stop s)) \<noteq> [] \<Longrightarrow> selfRetentions (stop s) = 0"
  by (auto simp add: stop_def notify_eq assignSelfRetain_def retentionInv_def emit_def
      emitted_def published_append published_clientNotified Let_def split: option.splits)

lemma statusChanged_inv:
  "retentionInv s \<Longrightarrow> retentionInv (replicatorStatusChanged hook repl newStatus s)"
proof (cases "u_replicator s = Some repl")
  case False
  assume "retentionInv s"
  with False show ?thesis
    by (simp add: statusChanged_stale retentionInv_def)
next
  case True
  assume "retentionInv s"
  with True show ?thesis
    using statusChanged_retention[OF True, of hook newStatus]
      statusChanged_engine[OF True, of hook newStatus]
      statusChanged_status[OF True, of hook newStatus]
    by (auto simp add: retentionInv_def split: if_splits)
qed

lemma statusChanged_published:
  assumes "retentionInv s"
    and "st \<in> set (published (emitted s (replicatorStatusChanged hook repl newStatus s)))"
    and "level st = kC4Stopped"
  shows "selfRetentions (replicatorStatusChanged hook repl newStatus s) = 0"
proof (cases "u_replicator s = Some repl")
  case False
  with assms(2) show ?thesis
    by (simp add: statusChanged_stale emitted_def)
next
  case True
  from assms(2) have "st = u_status (replicatorStatusChanged hook repl newStatus s)"
    by (simp add: statusChanged_emitted[OF True] published_append lockedSection_quiet
        published_clientNotified split: if_splits)
  with assms(1,3) show ?thesis
    using statusChanged_retention[OF True, of hook newStatus]
    by (auto simp add: retentionInv_def)
qed

lemma step_inv: "retentionInv s \<Longrightarrow> retentionInv (step hook s ev)"
proof (cases ev)
  case (EvStart newRepl engineStatus)
  assume "retentionInv s"
  with EvStart show ?thesis by (simp add: start_inv)
next
  case (EvSetSuspended suspended newRepl engineStatus)
  assume "retentionInv s"
  with EvSetSuspended show ?thesis by (simp add: setSuspended_inv)
next
  case EvStop
  assume "retentionInv s"
  with EvStop show ?thesis by (simp add: stop_inv)
next
  case (EvStatusChanged repl newStatus)
  assume "retentionInv s"
  with EvStatusChanged show ?thesis by (simp add: statusChanged_inv)
next
  case (EvDocumentsEnded repl revs)
  assume "retentionInv s"
  with EvDocumentsEnded show ?thesis
    by (auto simp add: replicatorDocumentsEnded_def docsEndedLoop_0 retentionInv_def)
next
  case (EvGotHTTPResponse repl httpStatus encoded)
  assume "retentionInv s"
  with EvGotHTTPResponse show ?thesis
    by (auto simp add: replicatorGotHTTPResponse_def retentionInv_def emit_def Let_def)
qed (auto simp add: retentionInv_def setHostReachable_def responseHeaders_def status_def
      setProperties_def detach_def pendingDocumentIDs_def replicatorBlobProgress_def
      emit_def Let_def split: option.splits prod.splits)

lemma run_inv: "retentionInv s \<Longrightarrow> retentionInv (run hook evs s)"
  unfolding run_def by (induction evs arbitrary: s) (simp_all add: step_inv)

lemma step_published:
  assumes "retentionInv s"
    and "st \<in> set (published (emitted s (step hook s ev)))"
    and "level st = kC4Stopped"
  shows "selfRetentions (step hook s ev) = 0"
proof (cases ev)
  case (EvStart newRepl engineStatus)
  with assms(2) show ?thesis by (simp add: start_published)
next
  case (EvSetSuspended suspended newRepl engineStatus)
  with assms(2) show ?thesis by (simp add: setSuspended_published)
next
  case EvStop
  with assms(1,2) show ?thesis by (auto intro: stop_published)
next
  case (EvStatusChanged repl newStatus)
  with assms show ?thesis by (auto intro: statusChanged_published)
next
  case (EvDocumentsEnded repl revs)
  with assms(2) show ?thesis
    by (simp add: replicatorDocumentsEnded_def docsEndedLoop_0 emitted_def published_append
        published_documentsEndedCall split: if_splits)
next
  case (EvGotHTTPResponse repl httpStatus encoded)
  with assms(2) show ?thesis
    by (simp add: replicatorGotHTTPResponse_def emitted_def emit_def Let_def split: if_splits)
next
  case (EvSetHostReachable reachable)
  with assms(2) show ?thesis by (simp add: setHostReachable_def emitted_def)
next
  case EvResponseHeaders
  with assms(2) show ?thesis by (simp add: responseHeaders_def emitted_def emit_def Let_def)
next
  case EvStatus
  with assms(2) show ?thesis by (simp add: status_def emitted_def emit_def Let_def)
next
  case (EvSetProperties props)
  with assms(2) show ?thesis by (simp add: setProperties_def emitted_def emit_def Let_def)
next
  case EvDetach
  with assms(2) show ?thesis by (simp add: detach_def emitted_def emit_def Let_def)
next
  case (EvPendingDocumentIDs replQuery checkpointerQuery outErr)
  with assms(2) show ?thesis
    by (simp add: pendingDocumentIDs_def emitted_def emit_def Let_def split: prod.splits if_splits)
next
  case (EvBlobProgress repl p)
  with assms(2) show ?thesis
    by (simp add: replicatorBlobProgress_def emitted_def emit_def split: option.splits if_splits)
qed

section \<open>The claims\<close>

subsection \<open>C1: the self-reference\<close>

text \<open>
  C1, as amended. After every sequence of calls on a newly constructed object, by the
  client or by the engine and with any override of \<^verbatim>\<open>handleStopped\<close>, the number of
  references the object holds on itself is 0 or 1. Whenever the next call publishes a
  status whose level is Stopped, that number is 0 after the call. When the current
  engine reports Stopped while the Suspended flag is set, the call publishes the level
  Offline and drops the engine, and the self-reference is still held (the number is 1):
  it is given back only by a later \<^verbatim>\<open>stop()\<close> or a later published Stopped.
\<close>

theorem C1_self_retention:
  "(let s = run hook evs (construct params) in
     0 \<le> selfRetentions s \<and> selfRetentions s \<le> 1
     \<and> (\<forall>st. st \<in> set (published (emitted s (step hook s ev))) \<and> level st = kC4Stopped
            \<longrightarrow> selfRetentions (step hook s ev) = 0)
     \<and> (u_replicator s = Some repl \<and> level newStatus = kC4Stopped \<and> statusFlag kC4Suspended s
            \<longrightarrow> published (emitted s (step hook s (EvStatusChanged repl newStatus)))
                  = [newStatus\<lparr>flags := flags (u_status s), level := kC4Offline\<rparr>]
                \<and> u_replicator (step hook s (EvStatusChanged repl newStatus)) = None
                \<and> selfRetentions (step hook s (EvStatusChanged repl newStatus)) = 1))"
proof -
  define s where "s = run hook evs (construct params)"
  have inv: "retentionInv s"
    unfolding s_def by (rule run_inv) (rule retentionInv_construct)
  have bound: "0 \<le> selfRetentions s \<and> selfRetentions s \<le> 1"
    using inv by (simp add: retentionInv_def)
  have stopped: "selfRetentions (step hook s ev) = 0"
    if "st \<in> set (published (emitted s (step hook s ev)))" "level st = kC4Stopped" for st
    using inv that by (rule step_published)
  have offline: "published (emitted s (step hook s (EvStatusChanged repl newStatus)))
                  = [newStatus\<lparr>flags := flags (u_status s), level := kC4Offline\<rparr>]
                \<and> u_replicator (step hook s (EvStatusChanged repl newStatus)) = None
                \<and> selfRetentions (step hook s (EvStatusChanged repl newStatus)) = 1"
    if cur: "u_replicator s = Some repl" and "level newStatus = kC4Stopped"
      and "statusFlag kC4Suspended s"
    using that inv statusChanged_retention[OF cur, of hook newStatus]
      statusChanged_engine[OF cur, of hook newStatus]
      statusChanged_status[OF cur, of hook newStatus]
    by (simp add: statusChanged_emitted[OF cur] published_append lockedSection_quiet
        published_clientNotified retentionInv_def)
  show ?thesis
    unfolding Let_def s_def[symmetric] using bound stopped offline by blast
qed

text \<open>
  The theorem at the run \<open>suspendEvents\<close>: a \<^verbatim>\<open>stop()\<close> after it publishes Stopped and
  leaves no self-reference; and at the run \<open>suspendingEvents\<close>, where the engine is held
  and the Suspended flag is set: the engine's report of Stopped leaves one.
\<close>

theorem C1_self_retention_witness:
  "selfRetentions suspendedOffline \<le> 1
   \<and> u_status (stop suspendedOffline)
        \<in> set (published (emitted suspendedOffline (step baseHook suspendedOffline EvStop)))
   \<and> level (u_status (stop suspendedOffline)) = kC4Stopped
   \<and> selfRetentions (step baseHook suspendedOffline EvStop) = 0
   \<and> u_replicator suspending = Some 1 \<and> level (engineReport kC4Stopped) = kC4Stopped
   \<and> statusFlag kC4Suspended suspending
   \<and> selfRetentions (step baseHook suspending (EvStatusChanged 1 (engineReport kC4Stopped))) = 1"
proof -
  have pub: "u_status (stop suspendedOffline)
        \<in> set (published (emitted suspendedOffline (step baseHook suspendedOffline EvStop)))"
    and lev: "level (u_status (stop suspendedOffline)) = kC4Stopped"
    by (simp_all add: suspendedOffline_eq offlineStatus_def emitted_def stop_def
        notifyStateChanged_def assignSelfRetain_def emit_def Let_def)
  have cur: "u_replicator suspending = Some 1 \<and> level (engineReport kC4Stopped) = kC4Stopped
      \<and> statusFlag kC4Suspended suspending"
    by (simp add: suspending_eq statusFlag_def kC4Suspended_def engineReport_def)
  show ?thesis
    using C1_self_retention[of baseHook suspendEvents exampleParams EvStop 1
        "engineReport kC4Stopped"]
      C1_self_retention[of baseHook suspendingEvents exampleParams EvStop 1
        "engineReport kC4Stopped"]
      pub lev cur
    unfolding Let_def suspendedOffline_def[symmetric] suspending_def[symmetric]
    by blast
qed

text \<open>
  C1 as stated fails. After \<^verbatim>\<open>start()\<close>, \<^verbatim>\<open>setSuspended(true)\<close> and the engine's report
  of Stopped, the controller has published the level Offline with the Suspended flag
  set, holds no engine, and still holds the reference on itself.
\<close>

theorem C1_offline_via_suspend_keeps_retention:
  "suspendedOffline = step baseHook suspending (EvStatusChanged 1 (engineReport kC4Stopped))
   \<and> published (emitted suspending suspendedOffline) = [u_status suspendedOffline]
   \<and> level (u_status suspendedOffline) = kC4Offline
   \<and> statusFlag kC4Suspended suspendedOffline
   \<and> u_replicator suspendedOffline = None
   \<and> selfRetentions suspendedOffline = 1"
  by (simp add: suspendedOffline_def suspendEvents_def run_snoc suspending_def[symmetric])
     (simp add: suspending_eq emitted_def statusFlag_def engineReport_def method_defs)

subsection \<open>C2: batches of finished revisions\<close>

text \<open>
  C2, as amended. For a batch of finished revisions that the current engine delivers,
  the batch is split by direction, the order of the batch kept within each part. When a
  documents-ended callback is set, it is called once for each part that is not empty,
  with the part's revisions, their number and the context token of the options: first
  for the incoming part (\<^verbatim>\<open>pushing\<close> false), then for the outgoing part (\<^verbatim>\<open>pushing\<close>
  true). When no callback is set, none is called. Nothing else of the object changes.
\<close>

theorem C2_documents_ended_dispatch:
  assumes "u_replicator s = Some repl"
  shows "replicatorDocumentsEnded repl revs s =
     s\<lparr>trace := trace s @ documentsEndedCall s False (partitionByDir False revs)
                 @ documentsEndedCall s True (partitionByDir True revs)\<rparr>"
  using assms by (simp add: replicatorDocumentsEnded_def docsEndedLoop_0)

text \<open>
  The theorem at the started controller, for a batch of a pushed revision followed by a
  pulled one; and at the same controller after \<^verbatim>\<open>detach()\<close>.
\<close>

theorem C2_documents_ended_witness:
  "u_replicator started = Some 1
   \<and> emitted started (replicatorDocumentsEnded 1 exampleRevs started)
       = [OnDocumentsEnded 2 False 1 [asDocumentEnded (exampleRevs ! 1)] 7,
          OnDocumentsEnded 2 True 1 [asDocumentEnded (exampleRevs ! 0)] 7]
   \<and> emitted (detach started) (replicatorDocumentsEnded 1 exampleRevs (detach started)) = []"
proof -
  have e1: "u_replicator started = Some 1" and e2: "u_replicator (detach started) = Some 1"
    by (simp_all add: started_eq detach_def emit_def Let_def)
  show ?thesis
    using C2_documents_ended_dispatch[OF e1, of exampleRevs]
      C2_documents_ended_dispatch[OF e2, of exampleRevs]
    by (simp add: started_eq emitted_def documentsEndedCall_def partitionByDir_def
        exampleRevs_def detach_def emit_def Let_def)
qed

text \<open>
  C2 as stated fails. For a batch of a pushed revision followed by a pulled one, the
  first call of the callback is for the pulled (incoming) revision and the second for
  the pushed (outgoing) one; the calls are not in the order outgoing, incoming.
\<close>

theorem C2_incoming_dispatched_first:
  "emitted started (replicatorDocumentsEnded 1 exampleRevs started)
     = [OnDocumentsEnded 2 False 1 [asDocumentEnded (exampleRevs ! 1)] 7,
        OnDocumentsEnded 2 True 1 [asDocumentEnded (exampleRevs ! 0)] 7]
   \<and> emitted started (replicatorDocumentsEnded 1 exampleRevs started)
     \<noteq> [OnDocumentsEnded 2 True 1 [asDocumentEnded (exampleRevs ! 0)] 7,
        OnDocumentsEnded 2 False 1 [asDocumentEnded (exampleRevs ! 1)] 7]"
  by (simp add: replicatorDocumentsEnded_def docsEndedLoop_0 started_eq emitted_def
      documentsEndedCall_def partitionByDir_def exampleRevs_def)

subsection \<open>C3: reachability of the host\<close>

text \<open>
  C3, as amended. In this class \<^verbatim>\<open>setHostReachable(b)\<close> does nothing, for either \<open>b\<close>
  and in every state: the object, the HostReachable flag included, is as it was.
\<close>

theorem C3_setHostReachable_is_noop:
  "setHostReachable reachable s = s"
  by (simp add: setHostReachable_def)

text \<open>
  C3 as stated fails. A newly constructed controller has the HostReachable flag set,
  and it is still set after \<^verbatim>\<open>setHostReachable(false)\<close>.
\<close>

theorem C3_flag_not_updated:
  "statusFlag kC4HostReachable (setHostReachable False (construct exampleParams))"
  by (simp add: setHostReachable_def statusFlag_def construct_def kC4HostReachable_def)

subsection \<open>C4: the mutex and the client's callbacks\<close>

text \<open>
  C4. The claim is that no call holds the mutex while it calls a callback of the client.
  \<^verbatim>\<open>stop()\<close> does: on a controller that holds no engine and is not Stopped (here the
  one suspended to Offline), with a status-changed callback set, the callback is called
  after the mutex is taken and before it is given back.
\<close>

theorem C4_stop_notifies_under_lock:
  "emitted suspendedOffline (stop suspendedOffline)
       = [Lock,
          NotifyStateChanged (offlineStatus\<lparr>level := kC4Stopped, progress := zeroProgress\<rparr>),
          OnStatusChanged 1 (offlineStatus\<lparr>level := kC4Stopped, progress := zeroProgress\<rparr>) 7,
          SelfRetainAssign False, Unlock]
   \<and> callbackUnderLock False (emitted suspendedOffline (stop suspendedOffline))"
  by (simp add: suspendedOffline_eq offlineStatus_def emitted_def stop_def
      notifyStateChanged_def assignSelfRetain_def emit_def Let_def)

text \<open>
  The same holds for every such controller: \<^verbatim>\<open>stop()\<close> without an engine, at a level
  other than Stopped and with a status-changed callback set, calls the callback under
  the mutex. The engine's status report, by contrast, gives the mutex back before it
  notifies, and the two other delegate calls that reach a callback never take it.
\<close>

lemma stop_callback_under_lock:
  assumes "u_replicator s = None" and "level (u_status s) \<noteq> kC4Stopped"
    and "u_onStatusChanged s = Some onStatusChanged"
  shows "callbackUnderLock False (emitted s (stop s))"
  using assms
  by (simp add: stop_def notify_eq clientNotified_def assignSelfRetain_def emit_def
      emitted_def Let_def)

lemma statusChanged_not_under_lock:
  "\<not> callbackUnderLock False (emitted s (replicatorStatusChanged hook repl newStatus s))"
proof (cases "u_replicator s = Some repl")
  case False
  then show ?thesis by (simp add: statusChanged_stale emitted_def)
next
  case True
  then show ?thesis
    by (simp add: statusChanged_emitted lockedSection_def clientNotified_def
        split: option.splits)
qed

lemma documentsEnded_not_under_lock:
  "\<not> callbackUnderLock False (emitted s (replicatorDocumentsEnded repl revs s))"
  by (simp add: replicatorDocumentsEnded_def docsEndedLoop_0 emitted_def
      documentsEndedCall_def split: option.splits)

lemma blobProgress_not_under_lock:
  "\<not> callbackUnderLock False (emitted s (replicatorBlobProgress repl p s))"
  by (simp add: replicatorBlobProgress_def emitted_def emit_def split: option.splits)

subsection \<open>C5: the engine reports that it stopped\<close>

text \<open>
  C5. When the current engine reports the level Stopped, the controller terminates the
  engine and drops its reference to it. If the Suspended flag is set, the level becomes
  Offline, that status is the one published, and \<^verbatim>\<open>handleStopped\<close> is not called.
  Otherwise \<^verbatim>\<open>handleStopped\<close> is called, under the mutex and before the notification,
  on the status updated from the report, and the status it leaves is the one published
  (after which the self-reference is given back if the level is still Stopped).
\<close>

theorem C5_engine_stopped:
  assumes "u_replicator s = Some repl" and "level newStatus = kC4Stopped"
  shows "replicatorStatusChanged hook repl newStatus s =
     (if statusFlag kC4Suspended s then
        s\<lparr>u_replicator := None,
           u_status := newStatus\<lparr>flags := flags (u_status s), level := kC4Offline\<rparr>,
           trace := trace s @ [Lock, ReplTerminate repl, Unlock,
             NotifyStateChanged (newStatus\<lparr>flags := flags (u_status s), level := kC4Offline\<rparr>)]
             @ clientNotified s (newStatus\<lparr>flags := flags (u_status s), level := kC4Offline\<rparr>)\<rparr>
      else
        s\<lparr>u_replicator := None,
           u_status := hook (newStatus\<lparr>flags := flags (u_status s)\<rparr>),
           u_selfRetain :=
             (if level (hook (newStatus\<lparr>flags := flags (u_status s)\<rparr>)) = kC4Stopped
              then False else u_selfRetain s),
           selfRetentions :=
             (if level (hook (newStatus\<lparr>flags := flags (u_status s)\<rparr>)) = kC4Stopped
              then selfRetentions s - (if u_selfRetain s then 1 else 0)
              else selfRetentions s),
           trace := trace s @ [Lock, ReplTerminate repl, HandleStopped, Unlock,
             NotifyStateChanged (hook (newStatus\<lparr>flags := flags (u_status s)\<rparr>))]
             @ clientNotified s (hook (newStatus\<lparr>flags := flags (u_status s)\<rparr>))
             @ (if level (hook (newStatus\<lparr>flags := flags (u_status s)\<rparr>)) = kC4Stopped
                then [SelfRetainAssign False] else [])\<rparr>)"
  using assms
  by (simp add: replicatorStatusChanged_def updateStatusFromReplicator_def statusFlag_def
      handleStopped_def notify_eq assignSelfRetain_def emit_def clientNotified_def Let_def
      split: option.splits)

text \<open>
  The theorem at the suspended controller (the published level is Offline, no hook),
  and at the started one with an override of \<^verbatim>\<open>handleStopped\<close> that asks for a retry
  (the hook runs, and the status it made is the one published).
\<close>

theorem C5_engine_stopped_witness:
  "u_replicator suspending = Some 1 \<and> level (engineReport kC4Stopped) = kC4Stopped
   \<and> statusFlag kC4Suspended suspending
   \<and> emitted suspending (replicatorStatusChanged baseHook 1 (engineReport kC4Stopped) suspending)
       = [Lock, ReplTerminate 1, Unlock, NotifyStateChanged offlineStatus,
          OnStatusChanged 1 offlineStatus 7]
   \<and> u_replicator started = Some 1 \<and> \<not> statusFlag kC4Suspended started
   \<and> emitted started (replicatorStatusChanged retryHook 1 (engineReport kC4Stopped) started)
       = [Lock, ReplTerminate 1, HandleStopped, Unlock,
          NotifyStateChanged ((engineReport kC4Offline)\<lparr>flags := 3\<rparr>),
          OnStatusChanged 1 ((engineReport kC4Offline)\<lparr>flags := 3\<rparr>) 7]"
proof -
  have e1: "u_replicator suspending = Some 1" and e2: "u_replicator started = Some 1"
    by (simp_all add: suspending_eq started_eq)
  have st: "level (engineReport kC4Stopped) = kC4Stopped"
    by (simp add: engineReport_def)
  show ?thesis
    using C5_engine_stopped[OF e1 st, of baseHook] C5_engine_stopped[OF e2 st, of retryHook]
    by (simp add: suspending_eq started_eq emitted_def statusFlag_def kC4Suspended_def
        kC4WillRetry_def clientNotified_def engineReport_def offlineStatus_def retryHook_def)
qed

subsection \<open>C6: releasing after the notification\<close>

text \<open>
  C6. In the handler of the engine's status reports, for a report of the current engine
  the trace is: the section under the mutex, the release of the mutex, the call of
  \<^verbatim>\<open>notifyStateChanged\<close> with the final status and the client's callback if one is set,
  and then, exactly when the level of that final status is Stopped, the assignment of
  null to the self-reference, as the last action. The section under the mutex neither
  assigns the self-reference nor calls the callback. A report of another engine only
  takes and releases the mutex. So the self-reference is given back only when the
  published level is Stopped, and only after the notification.
\<close>

theorem C6_release_after_notification:
  "emitted s (replicatorStatusChanged hook repl newStatus s) =
     (if u_replicator s = Some repl then
        lockedSection s repl newStatus
          @ [Unlock, NotifyStateChanged (u_status (replicatorStatusChanged hook repl newStatus s))]
          @ clientNotified s (u_status (replicatorStatusChanged hook repl newStatus s))
          @ (if level (u_status (replicatorStatusChanged hook repl newStatus s)) = kC4Stopped
             then [SelfRetainAssign False] else [])
      else [Lock, Unlock])
   \<and> (\<forall>b. SelfRetainAssign b \<notin> set (lockedSection s repl newStatus))
   \<and> (\<forall>f st c. OnStatusChanged f st c \<notin> set (lockedSection s repl newStatus))
   \<and> u_selfRetain (replicatorStatusChanged hook repl newStatus s) =
       (if u_replicator s = Some repl
           \<and> level (u_status (replicatorStatusChanged hook repl newStatus s)) = kC4Stopped
        then False else u_selfRetain s)"
proof (cases "u_replicator s = Some repl")
  case False
  then show ?thesis
    by (simp add: statusChanged_stale emitted_def lockedSection_quiet)
next
  case True
  then show ?thesis
    using statusChanged_retention[OF True, of hook newStatus]
    by (simp add: statusChanged_emitted lockedSection_quiet)
qed

subsection \<open>C7: stop without an engine\<close>

text \<open>
  C7. \<^verbatim>\<open>stop()\<close> on a controller that holds no engine: when the level is not Stopped,
  the level becomes Stopped, the progress is cleared, \<^verbatim>\<open>notifyStateChanged\<close> is called
  once (and calls the client's callback once, when one is set), and null is assigned to
  the self-reference, which gives back the reference if one was held; nothing else
  changes. When the level is Stopped already, the call takes and releases the mutex and
  nothing more: no field changes and nothing is notified.
\<close>

theorem C7_stop_without_engine:
  assumes "u_replicator s = None"
  shows "stop s =
     (if level (u_status s) = kC4Stopped then s\<lparr>trace := trace s @ [Lock, Unlock]\<rparr>
      else s\<lparr>u_status := (u_status s)\<lparr>level := kC4Stopped, progress := zeroProgress\<rparr>,
             u_selfRetain := False,
             selfRetentions := selfRetentions s - (if u_selfRetain s then 1 else 0),
             trace := trace s @ [Lock,
               NotifyStateChanged ((u_status s)\<lparr>level := kC4Stopped, progress := zeroProgress\<rparr>)]
               @ clientNotified s ((u_status s)\<lparr>level := kC4Stopped, progress := zeroProgress\<rparr>)
               @ [SelfRetainAssign False, Unlock]\<rparr>)"
  using assms
  by (simp add: stop_def notify_eq assignSelfRetain_def emit_def clientNotified_def Let_def
      split: option.splits)

text \<open>
  The theorem at the controller suspended to Offline, and at a newly constructed one
  (already Stopped).
\<close>

theorem C7_stop_without_engine_witness:
  "u_replicator suspendedOffline = None \<and> level (u_status suspendedOffline) = kC4Offline
   \<and> emitted suspendedOffline (stop suspendedOffline)
       = [Lock,
          NotifyStateChanged (offlineStatus\<lparr>level := kC4Stopped, progress := zeroProgress\<rparr>),
          OnStatusChanged 1 (offlineStatus\<lparr>level := kC4Stopped, progress := zeroProgress\<rparr>) 7,
          SelfRetainAssign False, Unlock]
   \<and> level (u_status (stop suspendedOffline)) = kC4Stopped
   \<and> progress (u_status (stop suspendedOffline)) = zeroProgress
   \<and> selfRetentions (stop suspendedOffline) = 0
   \<and> u_replicator (construct exampleParams) = None
   \<and> level (u_status (construct exampleParams)) = kC4Stopped
   \<and> stop (construct exampleParams) = (construct exampleParams)\<lparr>trace := [Lock, Unlock]\<rparr>"
proof -
  have e1: "u_replicator suspendedOffline = None"
    by (simp add: suspendedOffline_eq)
  have e2: "u_replicator (construct exampleParams) = None"
    by (simp add: construct_def)
  show ?thesis
    using C7_stop_without_engine[OF e1] C7_stop_without_engine[OF e2]
    by (simp add: suspendedOffline_eq emitted_def clientNotified_def offlineStatus_def)
       (simp add: construct_def)
qed

subsection \<open>C8: status updates from the engine\<close>

text \<open>
  C8. An update of the status record from a status the engine reports takes the level,
  the progress and the error from the report and keeps the flags the record had;
  nothing else of the object changes.
\<close>

theorem C8_updateStatus_keeps_flags:
  "flags (u_status (updateStatusFromReplicator st s)) = flags (u_status s)
   \<and> level (u_status (updateStatusFromReplicator st s)) = level st
   \<and> progress (u_status (updateStatusFromReplicator st s)) = progress st
   \<and> error (u_status (updateStatusFromReplicator st s)) = error st
   \<and> updateStatusFromReplicator st s = s\<lparr>u_status := st\<lparr>flags := flags (u_status s)\<rparr>\<rparr>"
  by (simp add: updateStatusFromReplicator_def)

subsection \<open>C9: pending documents\<close>

text \<open>
  C9, as amended. \<^verbatim>\<open>pendingDocumentIDs\<close> asks the engine when one is held and the
  checkpoint store otherwise. When the query fails, the result is the null slice, and
  the query's error is in the out-parameter if the caller passed one. When the query
  succeeds, the out-parameter is as the caller passed it, and the result is the null
  slice if no document was reported, and the array of the reported ids otherwise. So a
  failure and an empty answer return the same slice; they differ only in the
  out-parameter, and only for a caller that passed one holding another value than the
  error.
\<close>

theorem C9_pendingDocumentIDs_result:
  "fst (pendingDocumentIDs replQuery checkpointerQuery outErr s) =
     (let query = (case u_replicator s of Some repl \<Rightarrow> replQuery | None \<Rightarrow> checkpointerQuery)
      in case failure query of
           Some e \<Rightarrow> (NullSlice, case outErr of None \<Rightarrow> None | Some old \<Rightarrow> Some e)
         | None \<Rightarrow> (if reported query = [] then NullSlice
                     else FleeceArray (map infoDocID (reported query)), outErr))"
  by (simp add: pendingDocumentIDs_def pendingCallback_eq storeError_def emit_def Let_def
      split: option.splits)

text \<open>
  C9 as stated fails. For a caller that passes a null out-parameter, a failed query and
  a successful query without pending documents give the same result: the null slice and
  nothing else. And for a caller that passes a cleared error, the returned slice is the
  null slice in both cases.
\<close>

theorem C9_failure_equals_empty:
  "fst (pendingDocumentIDs failedQuery failedQuery None started) = (NullSlice, None)
   \<and> fst (pendingDocumentIDs emptyQuery emptyQuery None started) = (NullSlice, None)
   \<and> fst (fst (pendingDocumentIDs failedQuery failedQuery (Some noError) started)) = NullSlice
   \<and> fst (fst (pendingDocumentIDs emptyQuery emptyQuery (Some noError) started)) = NullSlice"
  by (simp add: pendingDocumentIDs_def failedQuery_def emptyQuery_def storeError_def
      started_eq emit_def Let_def)

subsection \<open>C10: setting the properties\<close>

text \<open>
  C10. \<^verbatim>\<open>setProperties(p)\<close> stores \<open>p\<close> as the properties of the options, in every
  state of the controller, whether an engine is held or not. It has no failing path, and
  apart from taking and releasing the mutex it changes nothing else: the other options,
  the status (level, progress, error, flags), the engine reference and the
  self-reference are as they were.
\<close>

theorem C10_setProperties_frame:
  "setProperties props s =
     s\<lparr>u_options := (u_options s)\<lparr>properties := props\<rparr>, trace := trace s @ [Lock, Unlock]\<rparr>
   \<and> properties (u_options (setProperties props s)) = props
   \<and> u_status (setProperties props s) = u_status s
   \<and> u_replicator (setProperties props s) = u_replicator s
   \<and> u_selfRetain (setProperties props s) = u_selfRetain s
   \<and> selfRetentions (setProperties props s) = selfRetentions s
   \<and> u_activeWhenSuspended (setProperties props s) = u_activeWhenSuspended s"
  by (simp add: setProperties_def emit_def Let_def)

end
